theory Spec2Isabelle
  imports Complex_Main "HOL-Library.Monad_Syntax"
begin

section \<open>Settings (main.py)\<close>

definition SECRET_KEY :: string where
  "SECRET_KEY = ''CHANGE_THIS_SECRET_KEY''"

definition ALGORITHM :: string where
  "ALGORITHM = ''HS256''"

definition ACCESS_TOKEN_EXPIRE_MINUTES :: int where
  "ACCESS_TOKEN_EXPIRE_MINUTES = 15"

section \<open>Tables (models.py)\<close>

text \<open>
  A row of \<open>users\<close>. The column \<open>id\<close> is named \<open>user_id\<close>; nullable columns are
  options. A \<open>datetime\<close> is a number of seconds since the epoch
  (an \<open>int\<close>); the sub-second part is not modelled.
\<close>

record User =
  user_id :: int
  username :: string
  role :: string
  hashed_password :: "string option"
  api_token_hash :: "string option"
  token_expires_at :: "int option"
  is_active :: "bool option"

text \<open>
  \<open>ProductIn\<close> is the request schema; a row of \<open>products\<close> (and the response schema
  \<open>ProductOut\<close>, which extends \<open>ProductIn\<close> by \<open>id\<close>) carries the same three fields and
  the primary key, here \<open>product_id\<close>. A price is only stored and returned, never computed
  with; it is a \<open>real\<close>.
\<close>

record ProductIn =
  name :: string
  description :: "string option"
  price :: "real option"

record Product = ProductIn +
  product_id :: int

text \<open>The database a session reads and writes: both tables, rows in insertion order.\<close>

record database =
  users :: "User list"
  products :: "Product list"

section \<open>Errors and schemas\<close>

datatype HTTPException = HTTPException (status_code: nat) (detail: string)

text \<open>
  What a handler can raise: an \<open>HTTPException\<close>, which becomes the response, or the
  \<open>OverflowError\<close> of the date arithmetic, which no handler catches (the server answers
  500).
\<close>

datatype error = HTTP HTTPException | OverflowError

text \<open>
  \<open>TokenRequest\<close>: \<open>expires_minutes\<close> is \<open>Optional[int]\<close>; a JSON \<open>null\<close> arrives as
  \<open>None\<close>, and a request that omits the field arrives with the schema's default,
  \<open>Some ACCESS_TOKEN_EXPIRE_MINUTES\<close>.
\<close>

record TokenRequest =
  request_username :: string
  expires_minutes :: "int option"

record TokenResponse =
  access_token :: string
  token_type :: string
  response_role :: string
  expires_at :: int

section \<open>The token library\<close>

text \<open>
  The claim set of a token, a Python dict: the three claims this service writes and
  reads, each possibly missing from a token minted elsewhere, and the other members of
  the dict, key and value (as text), which the service never reads.
\<close>

record claims =
  claim_sub :: "string option"
  claim_role :: "string option"
  claim_exp :: "int option"
  claim_other :: "(string \<times> string) list"

text \<open>A parsed token: the algorithm named in its header, its claim set, its signature.\<close>

record jws =
  jws_alg :: string
  jws_payload :: claims
  jws_signature :: string

text \<open>
  The primitives of the JWT library, which is not part of the repository, are
  parameters: the compact serialisation of a token to a string, its parser (\<open>None\<close> on a
  string that is not a token), and the keyed signature function over header algorithm
  and claim set.
\<close>

record jwt_lib =
  serialize :: "jws \<Rightarrow> string"
  parse :: "string \<Rightarrow> jws option"
  hmac :: "string \<Rightarrow> string \<Rightarrow> claims \<Rightarrow> string"

text \<open>
  A serialisation is lossless when it never writes the empty string and parsing what
  it wrote gives the token back.
\<close>

definition lossless :: "jwt_lib \<Rightarrow> bool" where
  "lossless L \<longleftrightarrow> (\<forall>j. serialize L j \<noteq> [] \<and> parse L (serialize L j) = Some j)"

datatype PyJWTError =
  DecodeError | InvalidAlgorithmError | InvalidSignatureError | ExpiredSignatureError

text \<open>
  Modelled from the spec: \<open>jwt.encode\<close> of the JWT library, which is not under src/.
  It produces a signed, self-contained token string encoding the claim set with a
  symmetric secret and the given algorithm; the signature covers the entire claim set.
\<close>

definition jwt_encode :: "jwt_lib \<Rightarrow> claims \<Rightarrow> string \<Rightarrow> string \<Rightarrow> string" where
  "jwt_encode L payload key algorithm =
     serialize L \<lparr>jws_alg = algorithm, jws_payload = payload,
                  jws_signature = hmac L key algorithm payload\<rparr>"

text \<open>
  Modelled from the spec: \<open>jwt.decode\<close> of the JWT library, which is not under src/.
  It fails when the token is malformed, when the algorithm does not match, when
  signature verification fails, or when \<open>exp\<close> has passed (\<open>exp\<close> must be in the future
  relative to \<open>now\<close>); otherwise it returns the claim set.
\<close>

definition jwt_decode ::
  "jwt_lib \<Rightarrow> string \<Rightarrow> string \<Rightarrow> string list \<Rightarrow> int \<Rightarrow> PyJWTError + claims" where
  "jwt_decode L token key algorithms now =
     (case parse L token of
        None \<Rightarrow> Inl DecodeError
      | Some j \<Rightarrow>
          if jws_alg j \<notin> set algorithms then Inl InvalidAlgorithmError
          else if jws_signature j \<noteq> hmac L key (jws_alg j) (jws_payload j)
            then Inl InvalidSignatureError
          else (case claim_exp (jws_payload j) of
                  None \<Rightarrow> Inr (jws_payload j)
                | Some e \<Rightarrow>
                    if e \<le> now then Inl ExpiredSignatureError
                    else Inr (jws_payload j)))"

section \<open>Utility helpers (main.py)\<close>

text \<open>The length of \<open>m\<close> minutes, in seconds.\<close>

definition timedelta_minutes :: "int \<Rightarrow> int" where
  "timedelta_minutes m = 60 * m"

text \<open>
  The limits of Python's date arithmetic: a \<open>timedelta\<close> has at most 999999999 days in
  either direction, and a \<open>datetime\<close> lies between the first second of year 1 and the
  last second of year 9999 (in seconds since the epoch).
\<close>

definition MAX_DELTA_DAYS :: int where
  "MAX_DELTA_DAYS = 999999999"

definition DATETIME_MIN :: int where
  "DATETIME_MIN = - 62135596800"

definition DATETIME_MAX :: int where
  "DATETIME_MAX = 253402300799"

text \<open>
  \<open>timedelta(minutes=m)\<close>: the duration in seconds, or \<open>OverflowError\<close> when its whole
  days (rounded down) exceed the limit.
\<close>

definition timedelta :: "int \<Rightarrow> error + int" where
  "timedelta m =
     (let days = timedelta_minutes m div 86400 in
      if - MAX_DELTA_DAYS \<le> days \<and> days \<le> MAX_DELTA_DAYS then Inr (timedelta_minutes m)
      else Inl OverflowError)"

text \<open>\<open>d + delta\<close> on a \<open>datetime\<close>: \<open>OverflowError\<close> when the sum is not a \<open>datetime\<close>.\<close>

definition datetime_add :: "int \<Rightarrow> int \<Rightarrow> error + int" where
  "datetime_add d delta =
     (if DATETIME_MIN \<le> d + delta \<and> d + delta \<le> DATETIME_MAX then Inr (d + delta)
      else Inl OverflowError)"

text \<open>
  The expression \<open>datetime.utcnow() + timedelta(minutes=m)\<close>, where \<open>now\<close> is the reading
  of \<open>datetime.utcnow()\<close>.
\<close>

definition utcnow_plus_minutes :: "int \<Rightarrow> int \<Rightarrow> error + int" where
  "utcnow_plus_minutes now m =
     (case timedelta m of
        Inl e \<Rightarrow> Inl e
      | Inr delta \<Rightarrow> datetime_add now delta)"

text \<open>
  \<open>create_access_token(data, expires_minutes)\<close>; \<open>now\<close> is the reading of
  \<open>datetime.utcnow()\<close>. The date arithmetic may raise \<open>OverflowError\<close>, and then no token
  is made.
\<close>

definition create_access_token :: "jwt_lib \<Rightarrow> claims \<Rightarrow> int \<Rightarrow> int \<Rightarrow> error + string" where
  "create_access_token L data expires_minutes_arg now =
     (let to_encode = data in
      case utcnow_plus_minutes now expires_minutes_arg of
        Inl e \<Rightarrow> Inl e
      | Inr expire \<Rightarrow>
          (let to_encode = to_encode\<lparr>claim_exp := Some expire\<rparr>;
               encoded = jwt_encode L to_encode SECRET_KEY ALGORITHM
           in Inr encoded))"

text \<open>\<open>decode_token(token)\<close>: the payload, or \<open>None\<close> on any \<open>PyJWTError\<close>.\<close>

definition decode_token :: "jwt_lib \<Rightarrow> string \<Rightarrow> int \<Rightarrow> claims option" where
  "decode_token L token now =
     (case jwt_decode L token SECRET_KEY [ALGORITHM] now of
        Inr payload \<Rightarrow> Some payload
      | Inl _ \<Rightarrow> None)"

section \<open>Strings\<close>

text \<open>
  \<open>str.lower()\<close>: \<open>A\<close> to \<open>Z\<close> become \<open>a\<close> to \<open>z\<close>. A header value is decoded as
  Latin-1, where no character outside \<open>A\<close> to \<open>Z\<close> lowercases to an ASCII letter, so the
  comparison with \<open>bearer\<close> below only depends on this part of \<open>lower\<close>.
\<close>

definition lower_char :: "char \<Rightarrow> char" where
  "lower_char c =
     (let n = (of_char c :: nat) in if 65 \<le> n \<and> n \<le> 90 then char_of (n + 32) else c)"

definition lower :: "string \<Rightarrow> string" where
  "lower s = map lower_char s"

text \<open>\<open>s.partition(" ")\<close>: the split at the first space, or \<open>(s, "", "")\<close> without one.\<close>

definition partition_space :: "string \<Rightarrow> string \<times> string \<times> string" where
  "partition_space s =
     (case dropWhile (\<lambda>c. c \<noteq> CHR '' '') s of
        [] \<Rightarrow> (s, [], [])
      | _ # rest \<Rightarrow> (takeWhile (\<lambda>c. c \<noteq> CHR '' '') s, '' '', rest))"

text \<open>Python's \<open>a or b\<close> on an optional integer: \<open>None\<close> and \<open>0\<close> are falsy.\<close>

definition py_or :: "int option \<Rightarrow> int \<Rightarrow> int" where
  "py_or a b = (case a of None \<Rightarrow> b | Some n \<Rightarrow> if n = 0 then b else n)"

section \<open>Authentication dependency (main.py)\<close>

text \<open>\<open>db.query(User).filter(User.username == username).first()\<close>\<close>

definition query_user :: "database \<Rightarrow> string \<Rightarrow> User option" where
  "query_user db uname = find (\<lambda>u. username u = uname) (users db)"

text \<open>\<open>not payload\<close> on a decoded payload: the dict has no key.\<close>

definition empty_payload :: "claims \<Rightarrow> bool" where
  "empty_payload c \<longleftrightarrow>
     claim_sub c = None \<and> claim_role c = None \<and> claim_exp c = None \<and> claim_other c = []"

text \<open>
  \<open>get_current_user(authorization, db)\<close>; \<open>authorization\<close> is \<open>None\<close> when the request has
  no such header, \<open>now\<close> is the time at which the token is decoded. \<open>not authorization\<close>
  holds for \<open>None\<close> and for the empty string, \<open>not payload\<close> for \<open>None\<close> and for the empty
  dict, \<open>not username\<close> for a missing and for an empty \<open>sub\<close>.
\<close>

definition get_current_user ::
  "jwt_lib \<Rightarrow> database \<Rightarrow> int \<Rightarrow> string option \<Rightarrow> HTTPException + User" where
  "get_current_user L db now authorization =
     (case authorization of
        None \<Rightarrow> Inl (HTTPException 401 ''Missing Authorization header'')
      | Some auth \<Rightarrow>
          if auth = [] then Inl (HTTPException 401 ''Missing Authorization header'')
          else
            (case partition_space auth of (scheme, _, token) \<Rightarrow>
               if lower scheme \<noteq> ''bearer'' \<or> token = []
                 then Inl (HTTPException 401 ''Invalid Authorization header format'')
               else
                 (case decode_token L token now of
                    None \<Rightarrow> Inl (HTTPException 401 ''Invalid or expired token'')
                  | Some payload \<Rightarrow>
                      if empty_payload payload
                        then Inl (HTTPException 401 ''Invalid or expired token'')
                      else
                        (case claim_sub payload of
                           None \<Rightarrow> Inl (HTTPException 401 ''Invalid token payload'')
                         | Some uname \<Rightarrow>
                             if uname = []
                               then Inl (HTTPException 401 ''Invalid token payload'')
                             else
                               (case query_user db uname of
                                  None \<Rightarrow> Inl (HTTPException 401 ''User not found'')
                                | Some user \<Rightarrow> Inr user)))))"

text \<open>\<open>require_roles(*roles)\<close> returns the closure \<open>checker\<close>.\<close>

definition require_roles :: "string list \<Rightarrow> User \<Rightarrow> HTTPException + User" where
  "require_roles roles = (\<lambda>user.
     if role user \<notin> set roles then Inl (HTTPException 403 ''403 Forbidden'')
     else Inr user)"

text \<open>
  \<open>Depends(require_roles(...))\<close>: the checker's own dependency \<open>get_current_user\<close> is
  resolved first, and its exception ends the request.
\<close>

definition depends_require_roles ::
  "string list \<Rightarrow> jwt_lib \<Rightarrow> database \<Rightarrow> int \<Rightarrow> string option \<Rightarrow> HTTPException + User" where
  "depends_require_roles roles L db now authorization =
     (case get_current_user L db now authorization of
        Inl e \<Rightarrow> Inl e
      | Inr user \<Rightarrow> require_roles roles user)"

section \<open>Token creation endpoint (main.py)\<close>

text \<open>
  \<open>create_token(request, caller, db)\<close>. The clock is read twice: \<open>now1\<close> inside
  \<open>create_access_token\<close>, \<open>now2\<close> for the \<open>expires_at\<close> of the response. Either date
  sum may raise \<open>OverflowError\<close>.
\<close>

definition create_token ::
  "jwt_lib \<Rightarrow> database \<Rightarrow> int \<Rightarrow> int \<Rightarrow> TokenRequest \<Rightarrow> User \<Rightarrow> error + TokenResponse"
  where
  "create_token L db now1 now2 request caller =
     (if role caller \<noteq> ''admin'' \<and> username caller \<noteq> request_username request
        then Inl (HTTP (HTTPException 403
               ''You can create JWT tokens only for your own account.''))
      else
        (case query_user db (request_username request) of
           None \<Rightarrow> Inl (HTTP (HTTPException 404 ''User not found''))
         | Some user \<Rightarrow>
             (case create_access_token L
                     \<lparr>claim_sub = Some (username user), claim_role = Some (role user),
                      claim_exp = None, claim_other = []\<rparr>
                     (py_or (expires_minutes request) ACCESS_TOKEN_EXPIRE_MINUTES) now1 of
                Inl e \<Rightarrow> Inl e
              | Inr token \<Rightarrow>
                  (case utcnow_plus_minutes now2
                          (py_or (expires_minutes request) ACCESS_TOKEN_EXPIRE_MINUTES) of
                     Inl e \<Rightarrow> Inl e
                   | Inr expires \<Rightarrow>
                       Inr \<lparr>access_token = token, token_type = ''bearer'',
                            response_role = role user, expires_at = expires\<rparr>))))"

section \<open>Product endpoints (main.py)\<close>

text \<open>The primary key given to a new row: one more than the largest key in the table.\<close>

definition next_id :: "Product list \<Rightarrow> int" where
  "next_id ps = fold max (map product_id ps) 0 + 1"

text \<open>
  The body of \<open>add_product(p, user, db)\<close>, run once the dependency \<open>user\<close> is resolved;
  it returns the response and the database after the request.
\<close>

definition add_product ::
  "ProductIn \<Rightarrow> database \<Rightarrow> (HTTPException + Product) \<times> database" where
  "add_product p db =
     (case find (\<lambda>q. name q = name p) (products db) of
        Some _ \<Rightarrow> (Inl (HTTPException 409 ''Product name must be unique.''), db)
      | None \<Rightarrow>
          (let product = \<lparr>name = name p, description = description p, price = price p,
                          product_id = next_id (products db)\<rparr>
           in (Inr product, db\<lparr>products := products db @ [product]\<rparr>)))"

text \<open>The body of \<open>get_products(user, db)\<close>.\<close>

definition get_products :: "database \<Rightarrow> HTTPException + Product list" where
  "get_products db =
     (let ps = products db in
      if ps = [] then Inl (HTTPException 200 ''No products found'') else Inr ps)"

text \<open>The body of \<open>get_product(pid, user, db)\<close>.\<close>

definition get_product :: "int \<Rightarrow> database \<Rightarrow> HTTPException + Product" where
  "get_product pid db =
     (case find (\<lambda>q. product_id q = pid) (products db) of
        None \<Rightarrow> Inl (HTTPException 404 ''Product not found'')
      | Some product \<Rightarrow> Inr product)"

text \<open>
  The three product requests with their dependencies: \<open>POST /products\<close> requires the
  role \<open>admin\<close>, the two \<open>GET\<close> requests \<open>admin\<close> or \<open>privileged\<close>. A request whose
  dependency raises leaves the database as it was.
\<close>

definition post_products ::
  "jwt_lib \<Rightarrow> int \<Rightarrow> string option \<Rightarrow> ProductIn \<Rightarrow> database
    \<Rightarrow> (HTTPException + Product) \<times> database" where
  "post_products L now authorization p db =
     (case depends_require_roles [''admin''] L db now authorization of
        Inl e \<Rightarrow> (Inl e, db)
      | Inr user \<Rightarrow> add_product p db)"

definition list_products ::
  "jwt_lib \<Rightarrow> int \<Rightarrow> string option \<Rightarrow> database \<Rightarrow> HTTPException + Product list" where
  "list_products L now authorization db =
     (case depends_require_roles [''admin'', ''privileged''] L db now authorization of
        Inl e \<Rightarrow> Inl e
      | Inr user \<Rightarrow> get_products db)"

section \<open>Notions used by the properties\<close>

text \<open>The scheme and the token segment of a header value, as \<open>partition\<close> splits it.\<close>

definition scheme_of :: "string \<Rightarrow> string" where
  "scheme_of auth = fst (partition_space auth)"

definition token_of :: "string \<Rightarrow> string" where
  "token_of auth = snd (snd (partition_space auth))"

text \<open>The header value that carries a token.\<close>

definition bearer :: "string \<Rightarrow> string option" where
  "bearer token = Some (''Bearer '' @ token)"

text \<open>
  The part of \<open>get_current_user\<close> that does not read the database: the header and
  token checks, giving the subject to look up.
\<close>

definition subject_of :: "jwt_lib \<Rightarrow> int \<Rightarrow> string option \<Rightarrow> HTTPException + string" where
  "subject_of L now authorization =
     (if authorization = None \<or> authorization = Some []
        then Inl (HTTPException 401 ''Missing Authorization header'')
      else if lower (scheme_of (the authorization)) \<noteq> ''bearer''
              \<or> token_of (the authorization) = []
        then Inl (HTTPException 401 ''Invalid Authorization header format'')
      else
        (case decode_token L (token_of (the authorization)) now of
           None \<Rightarrow> Inl (HTTPException 401 ''Invalid or expired token'')
         | Some payload \<Rightarrow>
             if empty_payload payload then Inl (HTTPException 401 ''Invalid or expired token'')
             else if claim_sub payload = None \<or> claim_sub payload = Some []
               then Inl (HTTPException 401 ''Invalid token payload'')
             else Inr (the (claim_sub payload))))"

text \<open>
  The expiry \<open>m\<close> minutes after \<open>now\<close> can be computed: the duration is a \<open>timedelta\<close>
  and the sum is a \<open>datetime\<close>.
\<close>

definition expiry_in_range :: "int \<Rightarrow> int \<Rightarrow> bool" where
  "expiry_in_range now m \<longleftrightarrow>
     - MAX_DELTA_DAYS \<le> timedelta_minutes m div 86400 \<and>
     timedelta_minutes m div 86400 \<le> MAX_DELTA_DAYS \<and>
     DATETIME_MIN \<le> now + timedelta_minutes m \<and> now + timedelta_minutes m \<le> DATETIME_MAX"

text \<open>No two rows of \<open>products\<close> have the same name.\<close>

definition unique_names :: "database \<Rightarrow> bool" where
  "unique_names db \<longleftrightarrow> distinct (map name (products db))"

text \<open>
  A run of \<open>POST /products\<close> requests, each with its time, header and body, from a
  given database.
\<close>

fun serve_posts ::
  "jwt_lib \<Rightarrow> (int \<times> string option \<times> ProductIn) list \<Rightarrow> database \<Rightarrow> database" where
  "serve_posts L [] db = db"
| "serve_posts L ((now, authorization, p) # rest) db =
     serve_posts L rest (snd (post_products L now authorization p db))"

text \<open>A user row with its \<open>is_active\<close> column blanked.\<close>

definition erase_active :: "User \<Rightarrow> User" where
  "erase_active u = u\<lparr>is_active := None\<rparr>"

section \<open>A reference token library\<close>

text \<open>
  An instance of the library's primitives, to show that the interface can be met and
  to run the service on concrete requests. A string is written character by character,
  each after an underscore, and closed by a dot; an integer is its sign followed by as
  many strokes as its absolute value; an optional value is tagged \<open>N\<close> or \<open>S\<close>; a list
  of pairs is its length followed by the pairs.
\<close>

fun esc :: "string \<Rightarrow> string" where
  "esc [] = ''.''"
| "esc (c # s) = CHR ''_'' # c # esc s"

fun unesc :: "string \<Rightarrow> (string \<times> string) option" where
  "unesc [] = None"
| "unesc [c] = (if c = CHR ''.'' then Some ([], []) else None)"
| "unesc (c # d # r) =
     (if c = CHR ''.'' then Some ([], d # r)
      else (case unesc r of None \<Rightarrow> None | Some (s, t) \<Rightarrow> Some (d # s, t)))"

definition enc_int :: "int \<Rightarrow> string" where
  "enc_int i = esc ((if i < 0 then CHR ''-'' else CHR ''+'') # replicate (nat \<bar>i\<bar>) CHR ''1'')"

definition dec_int :: "string \<Rightarrow> (int \<times> string) option" where
  "dec_int s =
     (case unesc s of
        None \<Rightarrow> None
      | Some ([], t) \<Rightarrow> None
      | Some (c # r, t) \<Rightarrow> Some ((if c = CHR ''-'' then - int (length r) else int (length r)), t))"

definition enc_opt :: "('a \<Rightarrow> string) \<Rightarrow> 'a option \<Rightarrow> string" where
  "enc_opt e x = (case x of None \<Rightarrow> ''N'' | Some y \<Rightarrow> CHR ''S'' # e y)"

definition dec_opt ::
  "(string \<Rightarrow> ('a \<times> string) option) \<Rightarrow> string \<Rightarrow> ('a option \<times> string) option" where
  "dec_opt d s =
     (case s of
        [] \<Rightarrow> None
      | c # r \<Rightarrow>
          if c = CHR ''N'' then Some (None, r)
          else if c = CHR ''S''
            then (case d r of None \<Rightarrow> None | Some (y, t) \<Rightarrow> Some (Some y, t))
          else None)"

fun enc_pairs :: "(string \<times> string) list \<Rightarrow> string" where
  "enc_pairs [] = []"
| "enc_pairs ((k, v) # xs) = esc k @ esc v @ enc_pairs xs"

fun dec_pairs :: "nat \<Rightarrow> string \<Rightarrow> ((string \<times> string) list \<times> string) option" where
  "dec_pairs 0 s = Some ([], s)"
| "dec_pairs (Suc n) s =
     (case unesc s of
        None \<Rightarrow> None
      | Some (k, s1) \<Rightarrow>
          (case unesc s1 of
             None \<Rightarrow> None
           | Some (v, s2) \<Rightarrow>
               (case dec_pairs n s2 of
                  None \<Rightarrow> None
                | Some (xs, t) \<Rightarrow> Some ((k, v) # xs, t))))"

definition enc_other :: "(string \<times> string) list \<Rightarrow> string" where
  "enc_other xs = enc_int (int (length xs)) @ enc_pairs xs"

definition dec_other :: "string \<Rightarrow> ((string \<times> string) list \<times> string) option" where
  "dec_other s =
     (case dec_int s of
        None \<Rightarrow> None
      | Some (n, t) \<Rightarrow> if n < 0 then None else dec_pairs (nat n) t)"

definition enc_claims :: "claims \<Rightarrow> string" where
  "enc_claims c =
     enc_opt esc (claim_sub c) @ enc_opt esc (claim_role c) @ enc_opt enc_int (claim_exp c)
       @ enc_other (claim_other c)"

definition plain_serialize :: "jws \<Rightarrow> string" where
  "plain_serialize j = esc (jws_alg j) @ enc_claims (jws_payload j) @ esc (jws_signature j)"

definition plain_parse :: "string \<Rightarrow> jws option" where
  "plain_parse s = do {
     (a, s1) \<leftarrow> unesc s;
     (u, s2) \<leftarrow> dec_opt unesc s1;
     (r, s3) \<leftarrow> dec_opt unesc s2;
     (e, s4) \<leftarrow> dec_opt dec_int s3;
     (other, s5) \<leftarrow> dec_other s4;
     (g, s6) \<leftarrow> unesc s5;
     if s6 = [] then
       Some \<lparr>jws_alg = a,
             jws_payload = \<lparr>claim_sub = u, claim_role = r, claim_exp = e, claim_other = other\<rparr>,
             jws_signature = g\<rparr>
     else None
   }"

text \<open>The reference signature: key, algorithm and the written claim set, joined.\<close>

definition plain_hmac :: "string \<Rightarrow> string \<Rightarrow> claims \<Rightarrow> string" where
  "plain_hmac key algorithm c = key @ ''/'' @ algorithm @ ''/'' @ enc_claims c"

definition plain_lib :: jwt_lib where
  "plain_lib = \<lparr>serialize = plain_serialize, parse = plain_parse, hmac = plain_hmac\<rparr>"

text \<open>The users that the seeding script creates, and a directory holding them.\<close>

definition seed_user :: "int \<Rightarrow> string \<Rightarrow> string \<Rightarrow> User" where
  "seed_user i uname r =
     \<lparr>user_id = i, username = uname, role = r, hashed_password = None,
      api_token_hash = None, token_expires_at = None, is_active = Some True\<rparr>"

definition seed_db :: database where
  "seed_db =
     \<lparr>users = [seed_user 1 ''admin'' ''admin'', seed_user 2 ''alice'' ''privileged'',
               seed_user 3 ''bob'' ''nonadmin''],
      products = []\<rparr>"

text \<open>
  The token that \<open>create_access_token\<close> makes at time 0 for one minute (so it expires
  at time 60), a database with one product, and the seeded directory after bob was
  promoted or deactivated.
\<close>

definition issued_token :: "string \<Rightarrow> string \<Rightarrow> string" where
  "issued_token uname r =
     jwt_encode plain_lib
       \<lparr>claim_sub = Some uname, claim_role = Some r, claim_exp = Some 60, claim_other = []\<rparr>
       SECRET_KEY ALGORITHM"

definition stocked_db :: database where
  "stocked_db =
     seed_db\<lparr>products :=
       [\<lparr>name = ''pen'', description = None, price = None, product_id = 1\<rparr>]\<rparr>"

definition promoted_db :: database where
  "promoted_db =
     seed_db\<lparr>users := [seed_user 1 ''admin'' ''admin'', seed_user 2 ''alice'' ''privileged'',
                       seed_user 3 ''bob'' ''privileged'']\<rparr>"

definition deactivated_db :: database where
  "deactivated_db =
     seed_db\<lparr>users := [seed_user 1 ''admin'' ''admin'', seed_user 2 ''alice'' ''privileged'',
                       (seed_user 3 ''bob'' ''nonadmin'')\<lparr>is_active := Some False\<rparr>]\<rparr>"

section \<open>The reference library is lossless\<close>

lemma unesc_esc: "unesc (esc s @ r) = Some (s, r)"
proof (induction s)
  case Nil
  show ?case by (cases r) simp_all
next
  case (Cons c s)
  then show ?case by simp
qed

lemma dec_int_enc_int: "dec_int (enc_int i @ r) = Some (i, r)"
  by (simp add: dec_int_def enc_int_def unesc_esc)

lemma dec_opt_enc_opt:
  "(\<And>y t. d (e y @ t) = Some (y, t)) \<Longrightarrow> dec_opt d (enc_opt e x @ r) = Some (x, r)"
  by (cases x) (simp_all add: dec_opt_def enc_opt_def)

lemma esc_nonempty: "esc s \<noteq> []"
  by (cases s) simp_all

lemma dec_pairs_enc_pairs: "dec_pairs (length xs) (enc_pairs xs @ r) = Some (xs, r)"
proof (induction xs)
  case Nil
  show ?case by simp
next
  case (Cons x xs)
  obtain k v where x: "x = (k, v)" by (cases x) auto
  with Cons show ?case by (simp add: unesc_esc)
qed

lemma dec_other_enc_other: "dec_other (enc_other xs @ r) = Some (xs, r)"
  by (simp add: dec_other_def enc_other_def dec_int_enc_int dec_pairs_enc_pairs)

lemma plain_parse_serialize: "plain_parse (plain_serialize j) = Some j"
proof -
  have "unesc (esc (jws_signature j)) = Some (jws_signature j, [])"
    using unesc_esc [of "jws_signature j" "[]"] by simp
  then show ?thesis
    by (simp add: plain_parse_def plain_serialize_def enc_claims_def unesc_esc
          dec_int_enc_int dec_opt_enc_opt dec_other_enc_other)
qed

lemma lossless_plain_lib: "lossless plain_lib"
  by (simp add: lossless_def plain_lib_def plain_parse_serialize)
     (simp add: plain_serialize_def esc_nonempty)

section \<open>Directory lookups and header parsing\<close>

lemma query_user_None: "query_user db n = None \<longleftrightarrow> n \<notin> username ` set (users db)"
  by (auto simp: query_user_def find_None_iff)

lemma query_user_Some: "query_user db n = Some u \<Longrightarrow> u \<in> set (users db) \<and> username u = n"
  by (auto simp: query_user_def find_Some_iff)

lemma get_current_user_subject:
  "get_current_user L db now authorization =
     (case subject_of L now authorization of
        Inl e \<Rightarrow> Inl e
      | Inr s \<Rightarrow>
          (case query_user db s of
             None \<Rightarrow> Inl (HTTPException 401 ''User not found'')
           | Some u \<Rightarrow> Inr u))"
  by (simp add: get_current_user_def subject_of_def scheme_of_def token_of_def
           split: option.splits prod.splits)

lemma lower_Bearer: "lower ''Bearer'' = ''bearer''"
  by code_simp

lemma subject_of_bearer:
  "token \<noteq> [] \<Longrightarrow> decode_token L token now = Some p \<Longrightarrow> claim_sub p = Some s \<Longrightarrow> s \<noteq> [] \<Longrightarrow>
     subject_of L now (bearer token) = Inr s"
  by (simp add: subject_of_def bearer_def scheme_of_def token_of_def partition_space_def
        lower_Bearer empty_payload_def)

section \<open>Date arithmetic\<close>

lemma utcnow_plus_minutes_range:
  "utcnow_plus_minutes now m =
     (if expiry_in_range now m then Inr (now + timedelta_minutes m) else Inl OverflowError)"
  by (auto simp: utcnow_plus_minutes_def timedelta_def datetime_add_def expiry_in_range_def
        Let_def)

lemma create_access_token_range:
  "create_access_token L data m now =
     (if expiry_in_range now m
      then Inr (jwt_encode L (data\<lparr>claim_exp := Some (now + timedelta_minutes m)\<rparr>)
                  SECRET_KEY ALGORITHM)
      else Inl OverflowError)"
  by (simp add: create_access_token_def utcnow_plus_minutes_range Let_def)

lemma create_token_found:
  "role caller = ''admin'' \<or> request_username request = username caller \<Longrightarrow>
   query_user db (request_username request) = Some target \<Longrightarrow>
     create_token L db now1 now2 request caller =
       (if expiry_in_range now1 (py_or (expires_minutes request) ACCESS_TOKEN_EXPIRE_MINUTES) \<and>
           expiry_in_range now2 (py_or (expires_minutes request) ACCESS_TOKEN_EXPIRE_MINUTES)
        then Inr \<lparr>access_token = jwt_encode L
                     \<lparr>claim_sub = Some (username target), claim_role = Some (role target),
                      claim_exp = Some (now1 + timedelta_minutes
                        (py_or (expires_minutes request) ACCESS_TOKEN_EXPIRE_MINUTES)),
                      claim_other = []\<rparr> SECRET_KEY ALGORITHM,
                  token_type = ''bearer'', response_role = role target,
                  expires_at = now2 + timedelta_minutes
                    (py_or (expires_minutes request) ACCESS_TOKEN_EXPIRE_MINUTES)\<rparr>
        else Inl OverflowError)"
  by (auto simp: create_token_def create_access_token_range utcnow_plus_minutes_range)

lemma create_token_Inr:
  "create_token L db now1 now2 request caller = Inr resp \<Longrightarrow>
     \<exists>target. query_user db (request_username request) = Some target \<and>
       response_role resp = role target \<and>
       expires_at resp = now2 + timedelta_minutes
         (py_or (expires_minutes request) ACCESS_TOKEN_EXPIRE_MINUTES) \<and>
       access_token resp = jwt_encode L
         \<lparr>claim_sub = Some (request_username request), claim_role = Some (role target),
          claim_exp = Some (now1 + timedelta_minutes
            (py_or (expires_minutes request) ACCESS_TOKEN_EXPIRE_MINUTES)),
          claim_other = []\<rparr>
         SECRET_KEY ALGORITHM"
proof -
  assume r: "create_token L db now1 now2 request caller = Inr resp"
  then have d: "role caller = ''admin'' \<or> request_username request = username caller"
    by (auto simp: create_token_def split: if_splits)
  from r obtain target where t: "query_user db (request_username request) = Some target"
    by (cases "query_user db (request_username request)")
       (auto simp: create_token_def split: if_splits)
  from r create_token_found [OF d t, of L now1 now2] query_user_Some [OF t] t
  show ?thesis by (auto split: if_splits)
qed

section \<open>Token issuance: the delegation rule\<close>

text \<open>
  C1. A caller who is not an admin and asks for another user's token gets 403. A caller
  who is an admin, or who asks for their own username, passes the delegation rule
  whatever the target: the request then fails with 404 when the target username is not
  in the user directory (also for an admin), and is otherwise not refused. Issuance
  then succeeds, returning the role of the directory's record for the target, whenever
  the expiry can be computed for both readings of the clock; when it cannot (a time to
  live that leads beyond the year 9999, say), the date arithmetic raises
  \<open>OverflowError\<close>. The delegation rule is checked before the directory is read.
\<close>

theorem create_token_delegation:
  "(role caller \<noteq> ''admin'' \<and> request_username request \<noteq> username caller \<longrightarrow>
      create_token L db now1 now2 request caller =
        Inl (HTTP (HTTPException 403
          ''You can create JWT tokens only for your own account.''))) \<and>
   (role caller = ''admin'' \<or> request_username request = username caller \<longrightarrow>
      (request_username request \<notin> username ` set (users db) \<longrightarrow>
         create_token L db now1 now2 request caller =
           Inl (HTTP (HTTPException 404 ''User not found''))) \<and>
      (request_username request \<in> username ` set (users db) \<longrightarrow>
         (\<exists>target. target \<in> set (users db) \<and> username target = request_username request \<and>
            (expiry_in_range now1
               (py_or (expires_minutes request) ACCESS_TOKEN_EXPIRE_MINUTES) \<and>
             expiry_in_range now2
               (py_or (expires_minutes request) ACCESS_TOKEN_EXPIRE_MINUTES) \<longrightarrow>
               (\<exists>resp. create_token L db now1 now2 request caller = Inr resp \<and>
                  response_role resp = role target)) \<and>
            (\<not> (expiry_in_range now1
                  (py_or (expires_minutes request) ACCESS_TOKEN_EXPIRE_MINUTES) \<and>
                expiry_in_range now2
                  (py_or (expires_minutes request) ACCESS_TOKEN_EXPIRE_MINUTES)) \<longrightarrow>
               create_token L db now1 now2 request caller = Inl OverflowError))))"
proof (intro conjI impI)
  show "create_token L db now1 now2 request caller =
      Inl (HTTP (HTTPException 403 ''You can create JWT tokens only for your own account.''))"
    if "role caller \<noteq> ''admin'' \<and> request_username request \<noteq> username caller"
    using that by (auto simp: create_token_def)
next
  assume d: "role caller = ''admin'' \<or> request_username request = username caller"
     and a: "request_username request \<notin> username ` set (users db)"
  from a have "query_user db (request_username request) = None"
    by (simp add: query_user_None)
  with d show "create_token L db now1 now2 request caller =
      Inl (HTTP (HTTPException 404 ''User not found''))"
    by (auto simp: create_token_def)
next
  assume d: "role caller = ''admin'' \<or> request_username request = username caller"
     and p: "request_username request \<in> username ` set (users db)"
  from p query_user_None [of db "request_username request"]
  obtain target where t: "query_user db (request_username request) = Some target"
    by auto
  note f = create_token_found [OF d t, of L now1 now2]
  from query_user_Some [OF t]
  have m: "target \<in> set (users db) \<and> username target = request_username request" .
  let ?ok = "expiry_in_range now1 (py_or (expires_minutes request) ACCESS_TOKEN_EXPIRE_MINUTES) \<and>
             expiry_in_range now2 (py_or (expires_minutes request) ACCESS_TOKEN_EXPIRE_MINUTES)"
  have s: "?ok \<longrightarrow> (\<exists>resp. create_token L db now1 now2 request caller = Inr resp \<and>
                  response_role resp = role target)"
    using f by simp
  have o: "\<not> ?ok \<longrightarrow> create_token L db now1 now2 request caller = Inl OverflowError"
    using f by simp
  from m s o
  show "\<exists>target. target \<in> set (users db) \<and> username target = request_username request \<and>
            (?ok \<longrightarrow>
               (\<exists>resp. create_token L db now1 now2 request caller = Inr resp \<and>
                  response_role resp = role target)) \<and>
            (\<not> ?ok \<longrightarrow> create_token L db now1 now2 request caller = Inl OverflowError)"
    by blast
qed

text \<open>
  On the seeded directory: alice (privileged) asking for bob's token gets 403, the
  admin asking for an unknown user gets 404, the admin asking for bob's token for one
  minute gets one with bob's role.
\<close>

theorem create_token_delegation_witness:
  "role (seed_user 2 ''alice'' ''privileged'') \<noteq> ''admin'' \<and>
   ''bob'' \<noteq> username (seed_user 2 ''alice'' ''privileged'') \<and>
   create_token plain_lib seed_db 0 0 \<lparr>request_username = ''bob'', expires_minutes = Some 1\<rparr>
     (seed_user 2 ''alice'' ''privileged'')
     = Inl (HTTP (HTTPException 403
         ''You can create JWT tokens only for your own account.'')) \<and>
   role (seed_user 1 ''admin'' ''admin'') = ''admin'' \<and>
   ''ghost'' \<notin> username ` set (users seed_db) \<and>
   create_token plain_lib seed_db 0 0 \<lparr>request_username = ''ghost'', expires_minutes = Some 1\<rparr>
     (seed_user 1 ''admin'' ''admin'') = Inl (HTTP (HTTPException 404 ''User not found'')) \<and>
   ''bob'' \<in> username ` set (users seed_db) \<and>
   expiry_in_range 0 (py_or (Some 1) ACCESS_TOKEN_EXPIRE_MINUTES) \<and>
   map_sum id response_role
     (create_token plain_lib seed_db 0 0 \<lparr>request_username = ''bob'', expires_minutes = Some 1\<rparr>
        (seed_user 1 ''admin'' ''admin'')) = Inr ''nonadmin'' \<and>
   \<not> expiry_in_range 0 (py_or (Some 5000000000) ACCESS_TOKEN_EXPIRE_MINUTES) \<and>
   create_token plain_lib seed_db 0 0
     \<lparr>request_username = ''bob'', expires_minutes = Some 5000000000\<rparr>
     (seed_user 1 ''admin'' ''admin'') = Inl OverflowError"
proof -
  let ?alice = "seed_user 2 ''alice'' ''privileged''"
  let ?admin = "seed_user 1 ''admin'' ''admin''"
  have h1: "role ?alice \<noteq> ''admin'' \<and> ''bob'' \<noteq> username ?alice"
    by (simp add: seed_user_def)
  have h2: "role ?admin = ''admin''"
    by (simp add: seed_user_def)
  have h3: "''ghost'' \<notin> username ` set (users seed_db)"
    by (simp add: seed_db_def seed_user_def)
  have h4: "''bob'' \<in> username ` set (users seed_db)"
    by (simp add: seed_db_def seed_user_def)
  have h5: "expiry_in_range 0 (py_or (Some 1) ACCESS_TOKEN_EXPIRE_MINUTES)"
    by (simp add: expiry_in_range_def py_or_def timedelta_minutes_def MAX_DELTA_DAYS_def
          DATETIME_MIN_def DATETIME_MAX_def)
  have h6: "\<not> expiry_in_range 0 (py_or (Some 5000000000) ACCESS_TOKEN_EXPIRE_MINUTES)"
    by (simp add: expiry_in_range_def py_or_def timedelta_minutes_def MAX_DELTA_DAYS_def
          DATETIME_MIN_def DATETIME_MAX_def)
  have bob: "target \<in> set (users seed_db) \<Longrightarrow> username target = ''bob'' \<Longrightarrow>
      role target = ''nonadmin''" for target
    by (auto simp: seed_db_def seed_user_def)
  from h1 create_token_delegation [of ?alice
      "\<lparr>request_username = ''bob'', expires_minutes = Some 1\<rparr>" plain_lib seed_db 0 0]
  have c1: "create_token plain_lib seed_db 0 0
      \<lparr>request_username = ''bob'', expires_minutes = Some 1\<rparr> ?alice
      = Inl (HTTP (HTTPException 403 ''You can create JWT tokens only for your own account.''))"
    by simp
  from h2 h3 create_token_delegation [of ?admin
      "\<lparr>request_username = ''ghost'', expires_minutes = Some 1\<rparr>" plain_lib seed_db 0 0]
  have c2: "create_token plain_lib seed_db 0 0
      \<lparr>request_username = ''ghost'', expires_minutes = Some 1\<rparr> ?admin
      = Inl (HTTP (HTTPException 404 ''User not found''))"
    by simp
  from h2 h4 h5 create_token_delegation [of ?admin
      "\<lparr>request_username = ''bob'', expires_minutes = Some 1\<rparr>" plain_lib seed_db 0 0]
  obtain resp target where
    r: "create_token plain_lib seed_db 0 0
          \<lparr>request_username = ''bob'', expires_minutes = Some 1\<rparr> ?admin = Inr resp"
       "target \<in> set (users seed_db)" "username target = ''bob''"
       "response_role resp = role target"
    by auto
  from r bob [of target]
  have c3: "map_sum id response_role
     (create_token plain_lib seed_db 0 0 \<lparr>request_username = ''bob'', expires_minutes = Some 1\<rparr>
        ?admin) = Inr ''nonadmin''"
    by simp
  from h2 h4 h6 create_token_delegation [of ?admin
      "\<lparr>request_username = ''bob'', expires_minutes = Some 5000000000\<rparr>" plain_lib seed_db 0 0]
  have c4: "create_token plain_lib seed_db 0 0
      \<lparr>request_username = ''bob'', expires_minutes = Some 5000000000\<rparr> ?admin
      = Inl OverflowError"
    by auto
  from h1 h2 h3 h4 h5 h6 c1 c2 c3 c4 show ?thesis by blast
qed

section \<open>The authorization gate\<close>

text \<open>
  C5. For every caller and every list of allowed roles, the gate lets the caller
  through (returning the caller) if and only if the caller's role is a member of the
  allowed roles, and answers 403 otherwise; two lists with the same members, in any
  order and with any repetitions, give the same outcome. The gate is a function of the
  caller and the roles alone: it reads and changes no state.
\<close>

theorem require_roles_membership:
  "(require_roles allowed caller = Inr caller \<longleftrightarrow> role caller \<in> set allowed) \<and>
   (role caller \<notin> set allowed \<longrightarrow>
      require_roles allowed caller = Inl (HTTPException 403 ''403 Forbidden'')) \<and>
   (set allowed = set allowed' \<longrightarrow>
      require_roles allowed caller = require_roles allowed' caller)"
  by (simp add: require_roles_def)

text \<open>alice (privileged) passes a gate for admin and privileged, bob (nonadmin) does not.\<close>

theorem require_roles_membership_witness:
  "require_roles [''admin'', ''privileged''] (seed_user 2 ''alice'' ''privileged'')
     = Inr (seed_user 2 ''alice'' ''privileged'') \<and>
   role (seed_user 3 ''bob'' ''nonadmin'') \<notin> set [''admin'', ''privileged''] \<and>
   require_roles [''admin'', ''privileged''] (seed_user 3 ''bob'' ''nonadmin'')
     = Inl (HTTPException 403 ''403 Forbidden'') \<and>
   set [''admin'', ''privileged''] = set [''privileged'', ''admin'', ''privileged''] \<and>
   require_roles [''admin'', ''privileged''] (seed_user 2 ''alice'' ''privileged'')
     = require_roles [''privileged'', ''admin'', ''privileged'']
         (seed_user 2 ''alice'' ''privileged'')"
proof -
  have m: "role (seed_user 2 ''alice'' ''privileged'') \<in> set [''admin'', ''privileged'']"
    by (simp add: seed_user_def)
  have n: "role (seed_user 3 ''bob'' ''nonadmin'') \<notin> set [''admin'', ''privileged'']"
    by (simp add: seed_user_def)
  have s: "set [''admin'', ''privileged''] = set [''privileged'', ''admin'', ''privileged'']"
    by auto
  from m n s
    require_roles_membership [of "[''admin'', ''privileged'']"
      "seed_user 2 ''alice'' ''privileged''" "[''privileged'', ''admin'', ''privileged'']"]
    require_roles_membership [of "[''admin'', ''privileged'']"
      "seed_user 3 ''bob'' ''nonadmin''" "[''admin'', ''privileged'']"]
  show ?thesis by blast
qed

section \<open>The product store\<close>

lemma find_name_Some:
  "n \<in> name ` set ps \<Longrightarrow> \<exists>q. find (\<lambda>q. name q = n) ps = Some q"
  by (cases "find (\<lambda>q. name q = n) ps") (auto simp: find_None_iff)

lemma add_product_conflict:
  "name p \<in> name ` set (products db) \<Longrightarrow>
     add_product p db = (Inl (HTTPException 409 ''Product name must be unique.''), db)"
  using find_name_Some [of "name p" "products db"] by (auto simp: add_product_def)

lemma add_product_fresh:
  "name p \<notin> name ` set (products db) \<Longrightarrow>
     \<exists>q. add_product p db = (Inr q, db\<lparr>products := products db @ [q]\<rparr>) \<and> name q = name p"
proof -
  assume f: "name p \<notin> name ` set (products db)"
  have "find (\<lambda>q. name q = name p) (products db) = None"
    unfolding find_None_iff using f by (metis imageI)
  then show ?thesis by (simp add: add_product_def Let_def)
qed

lemma add_product_unique: "unique_names db \<Longrightarrow> unique_names (snd (add_product p db))"
proof (cases "name p \<in> name ` set (products db)")
  case True
  assume "unique_names db"
  with add_product_conflict [OF True] show ?thesis by simp
next
  case False
  assume u: "unique_names db"
  from add_product_fresh [OF False] obtain q where
    q: "add_product p db = (Inr q, db\<lparr>products := products db @ [q]\<rparr>)" "name q = name p"
    by blast
  with u False show ?thesis by (auto simp: unique_names_def)
qed

lemma post_products_unique:
  "unique_names db \<Longrightarrow> unique_names (snd (post_products L now authorization p db))"
  using add_product_unique [of db p] by (auto simp: post_products_def split: sum.splits)

lemma serve_posts_unique:
  "unique_names db \<Longrightarrow> unique_names (serve_posts L requests db)"
proof (induction requests arbitrary: db)
  case Nil
  then show ?case by simp
next
  case (Cons r rs)
  obtain now a p where r: "r = (now, a, p)" by (cases r) auto
  from Cons.prems have "unique_names (snd (post_products L now a p db))"
    by (rule post_products_unique)
  with Cons.IH r show ?case by simp
qed

text \<open>
  C9. Uniqueness of product names is an invariant of the store: if no two stored
  products share a name, the same holds after \<open>add_product\<close> and after any run of
  \<open>POST /products\<close> requests (the only operation that writes the store); creating a
  product whose name is the name of a stored product fails with 409 and leaves the
  store unchanged.
\<close>

theorem product_names_stay_unique:
  "unique_names db \<Longrightarrow>
     unique_names (snd (add_product p db)) \<and>
     unique_names (serve_posts L requests db) \<and>
     (name p \<in> name ` set (products db) \<longrightarrow>
        add_product p db = (Inl (HTTPException 409 ''Product name must be unique.''), db))"
  using add_product_unique [of db p] add_product_conflict [of p db]
    serve_posts_unique [of db L requests]
  by blast

text \<open>A store holding a pen: a second pen is refused, and posting a pen and ink keeps
  the names unique.\<close>

theorem product_names_stay_unique_witness:
  "unique_names stocked_db \<and>
   unique_names (snd (add_product \<lparr>name = ''pen'', description = None, price = None\<rparr> stocked_db)) \<and>
   unique_names (serve_posts plain_lib
     [(10, bearer (issued_token ''admin'' ''admin''),
         \<lparr>name = ''pen'', description = None, price = None\<rparr>),
      (20, bearer (issued_token ''admin'' ''admin''),
         \<lparr>name = ''ink'', description = None, price = None\<rparr>)] stocked_db) \<and>
   name \<lparr>name = ''pen'', description = None, price = None\<rparr> \<in> name ` set (products stocked_db) \<and>
   add_product \<lparr>name = ''pen'', description = None, price = None\<rparr> stocked_db
     = (Inl (HTTPException 409 ''Product name must be unique.''), stocked_db)"
proof -
  have u: "unique_names stocked_db"
    by (simp add: unique_names_def stocked_db_def)
  have m: "name \<lparr>name = ''pen'', description = None, price = None\<rparr>
      \<in> name ` set (products stocked_db)"
    by (simp add: stocked_db_def)
  from m product_names_stay_unique [OF u,
      of "\<lparr>name = ''pen'', description = None, price = None\<rparr>" plain_lib
      "[(10, bearer (issued_token ''admin'' ''admin''),
         \<lparr>name = ''pen'', description = None, price = None\<rparr>),
      (20, bearer (issued_token ''admin'' ''admin''),
         \<lparr>name = ''ink'', description = None, price = None\<rparr>)]"]
  show ?thesis using u by blast
qed

text \<open>
  C10. When the product store is empty, the listing answers with status 200 and an
  error-shaped body, the detail message \<open>No products found\<close>, not with an empty
  collection; when the store is not empty it returns all stored products. For an
  authenticated and authorised caller the request \<open>GET /products\<close> answers just that.
\<close>

theorem get_products_empty_is_error_body:
  "(products db = [] \<longrightarrow> get_products db = Inl (HTTPException 200 ''No products found'')) \<and>
   (products db \<noteq> [] \<longrightarrow> get_products db = Inr (products db)) \<and>
   (depends_require_roles [''admin'', ''privileged''] L db now authorization = Inr user \<longrightarrow>
      list_products L now authorization db = get_products db)"
  by (simp add: get_products_def list_products_def)

text \<open>alice lists the empty seeded store; the stocked store is returned whole.\<close>

theorem get_products_empty_is_error_body_witness:
  "products seed_db = [] \<and>
   get_products seed_db = Inl (HTTPException 200 ''No products found'') \<and>
   products stocked_db \<noteq> [] \<and>
   get_products stocked_db = Inr (products stocked_db) \<and>
   depends_require_roles [''admin'', ''privileged''] plain_lib seed_db 10
     (bearer (issued_token ''alice'' ''privileged'')) = Inr (seed_user 2 ''alice'' ''privileged'') \<and>
   list_products plain_lib 10 (bearer (issued_token ''alice'' ''privileged'')) seed_db
     = Inl (HTTPException 200 ''No products found'')"
proof -
  have e: "products seed_db = []"
    by (simp add: seed_db_def)
  have n: "products stocked_db \<noteq> []"
    by (simp add: stocked_db_def)
  have a: "depends_require_roles [''admin'', ''privileged''] plain_lib seed_db 10
     (bearer (issued_token ''alice'' ''privileged'')) = Inr (seed_user 2 ''alice'' ''privileged'')"
    by code_simp
  from e n a
    get_products_empty_is_error_body [of seed_db plain_lib 10
      "bearer (issued_token ''alice'' ''privileged'')" "seed_user 2 ''alice'' ''privileged''"]
    get_products_empty_is_error_body [of stocked_db plain_lib 10 None undefined]
  show ?thesis by simp
qed

section \<open>The token codec\<close>

lemma decode_encode:
  "lossless L \<Longrightarrow>
     decode_token L (jwt_encode L c SECRET_KEY ALGORITHM) now =
       (case claim_exp c of None \<Rightarrow> Some c | Some e \<Rightarrow> if e \<le> now then None else Some c)"
  by (simp add: lossless_def decode_token_def jwt_decode_def jwt_encode_def split: option.splits)

text \<open>
  C3, as the spec states it, fails for a TTL whose expiry is no \<open>datetime\<close>: with
  \<open>t = 5000000000\<close> minutes the sum \<open>datetime.utcnow() + timedelta(minutes=t)\<close> lies
  beyond the year 9999, \<open>create_access_token\<close> raises \<open>OverflowError\<close> and there is no
  token to decode.
\<close>

theorem create_access_token_overflow_counterexample:
  "(0::int) < 5000000000 \<and>
   create_access_token plain_lib
     \<lparr>claim_sub = Some ''bob'', claim_role = Some ''nonadmin'', claim_exp = None,
      claim_other = []\<rparr> 5000000000 0 = Inl OverflowError"
  by (simp add: create_access_token_range expiry_in_range_def timedelta_minutes_def
        MAX_DELTA_DAYS_def DATETIME_MIN_def DATETIME_MAX_def)

text \<open>
  C3, amended. For every username, role and TTL \<open>t > 0\<close>, every reading \<open>now\<close> of the
  clock and every lossless token library: if the expiry \<open>now + t\<close> minutes is a
  \<open>datetime\<close> (not after the year 9999), then \<open>create_access_token\<close> returns a token, and
  this token decodes at the time of issuance and at any other time before its expiry to
  the claim set with that subject, that role and that expiry. (The username and the
  role need not even be non-empty.)
\<close>

theorem encode_decode_roundtrip:
  "lossless L \<Longrightarrow> 0 < t \<Longrightarrow> DATETIME_MIN \<le> now \<Longrightarrow>
   now + timedelta_minutes t \<le> DATETIME_MAX \<Longrightarrow>
     (\<exists>token.
        create_access_token L
          \<lparr>claim_sub = Some uname, claim_role = Some r, claim_exp = None,
           claim_other = []\<rparr> t now = Inr token \<and>
        decode_token L token now
          = Some \<lparr>claim_sub = Some uname, claim_role = Some r,
                  claim_exp = Some (now + timedelta_minutes t), claim_other = []\<rparr> \<and>
        (\<forall>later. later < now + timedelta_minutes t \<longrightarrow>
           decode_token L token later
             = Some \<lparr>claim_sub = Some uname, claim_role = Some r,
                     claim_exp = Some (now + timedelta_minutes t), claim_other = []\<rparr>))"
proof -
  assume l: "lossless L" and t: "0 < t" and lo: "DATETIME_MIN \<le> now"
     and hi: "now + timedelta_minutes t \<le> DATETIME_MAX"
  from t lo hi have b: "0 < t \<and> t \<le> 5258964960"
    by (simp add: timedelta_minutes_def DATETIME_MIN_def DATETIME_MAX_def)
  then have "- 999999999 \<le> 60 * t div 86400 \<and> 60 * t div 86400 \<le> 999999999"
    by arith
  with lo hi t have "expiry_in_range now t"
    by (simp add: expiry_in_range_def timedelta_minutes_def MAX_DELTA_DAYS_def
          DATETIME_MIN_def DATETIME_MAX_def)
  then have c: "create_access_token L
      \<lparr>claim_sub = Some uname, claim_role = Some r, claim_exp = None, claim_other = []\<rparr> t now
      = Inr (jwt_encode L
          \<lparr>claim_sub = Some uname, claim_role = Some r,
           claim_exp = Some (now + timedelta_minutes t), claim_other = []\<rparr>
          SECRET_KEY ALGORITHM)"
    by (simp add: create_access_token_range)
  from t have n: "now < now + timedelta_minutes t"
    by (simp add: timedelta_minutes_def)
  from c n show ?thesis
    by (simp add: decode_encode [OF l])
qed

text \<open>
  A one-minute token for bob, issued at time 0, decodes at time 0 and at time 30.
\<close>

theorem encode_decode_roundtrip_witness:
  "lossless plain_lib \<and> (0::int) < 1 \<and> DATETIME_MIN \<le> 0 \<and>
   0 + timedelta_minutes 1 \<le> DATETIME_MAX \<and>
   create_access_token plain_lib
     \<lparr>claim_sub = Some ''bob'', claim_role = Some ''nonadmin'', claim_exp = None,
      claim_other = []\<rparr> 1 0 = Inr (issued_token ''bob'' ''nonadmin'') \<and>
   decode_token plain_lib (issued_token ''bob'' ''nonadmin'') 0
     = Some \<lparr>claim_sub = Some ''bob'', claim_role = Some ''nonadmin'', claim_exp = Some 60,
             claim_other = []\<rparr> \<and>
   (30::int) < 0 + timedelta_minutes 1 \<and>
   decode_token plain_lib (issued_token ''bob'' ''nonadmin'') 30
     = Some \<lparr>claim_sub = Some ''bob'', claim_role = Some ''nonadmin'', claim_exp = Some 60,
             claim_other = []\<rparr>"
proof -
  have p: "(0::int) < 1" by simp
  have lo: "DATETIME_MIN \<le> 0"
    by (simp add: DATETIME_MIN_def)
  have hi: "0 + timedelta_minutes 1 \<le> DATETIME_MAX"
    by (simp add: DATETIME_MAX_def timedelta_minutes_def)
  have t: "(30::int) < 0 + timedelta_minutes 1"
    by (simp add: timedelta_minutes_def)
  have c: "create_access_token plain_lib
     \<lparr>claim_sub = Some ''bob'', claim_role = Some ''nonadmin'', claim_exp = None,
      claim_other = []\<rparr> 1 0 = Inr (issued_token ''bob'' ''nonadmin'')"
    by (simp add: create_access_token_range expiry_in_range_def timedelta_minutes_def
          MAX_DELTA_DAYS_def DATETIME_MIN_def DATETIME_MAX_def issued_token_def)
  from encode_decode_roundtrip [OF lossless_plain_lib p lo hi, of "''bob''" "''nonadmin''"] c t
  have d: "decode_token plain_lib (issued_token ''bob'' ''nonadmin'') 0
     = Some \<lparr>claim_sub = Some ''bob'', claim_role = Some ''nonadmin'', claim_exp = Some 60,
             claim_other = []\<rparr>"
    "decode_token plain_lib (issued_token ''bob'' ''nonadmin'') 30
     = Some \<lparr>claim_sub = Some ''bob'', claim_role = Some ''nonadmin'', claim_exp = Some 60,
             claim_other = []\<rparr>"
    by (auto simp: timedelta_minutes_def)
  from lossless_plain_lib p lo hi c t d show ?thesis by blast
qed

text \<open>
  C4. \<open>decode_token\<close> returns no claim set in exactly these cases: the string is not a
  token (malformed), the algorithm in its header is not the fixed algorithm, its
  signature is not the one the secret key gives, or it carries an expiry that is not in
  the future (\<open>exp \<le> now\<close>). In particular a token decoded after its expiry is refused,
  and a claim set that is returned is the one the token carries.
\<close>

theorem decode_token_fails_exactly:
  "(decode_token L token now = None \<longleftrightarrow>
      parse L token = None \<or>
      (\<exists>j. parse L token = Some j \<and>
         (jws_alg j \<noteq> ALGORITHM \<or>
          jws_signature j \<noteq> hmac L SECRET_KEY (jws_alg j) (jws_payload j) \<or>
          (\<exists>e. claim_exp (jws_payload j) = Some e \<and> e \<le> now)))) \<and>
   (\<forall>j e. parse L token = Some j \<and> claim_exp (jws_payload j) = Some e \<and> e < now \<longrightarrow>
      decode_token L token now = None) \<and>
   (\<forall>c. decode_token L token now = Some c \<longrightarrow>
      (\<exists>j. parse L token = Some j \<and> c = jws_payload j))"
  by (auto simp: decode_token_def jwt_decode_def split: option.splits if_splits)

text \<open>
  bob's token expires at time 60: it is refused at time 61 and accepted at time 59.
\<close>

theorem decode_token_fails_exactly_witness:
  "parse plain_lib (issued_token ''bob'' ''nonadmin'') =
     Some \<lparr>jws_alg = ALGORITHM,
           jws_payload = \<lparr>claim_sub = Some ''bob'', claim_role = Some ''nonadmin'',
                          claim_exp = Some 60, claim_other = []\<rparr>,
           jws_signature = plain_hmac SECRET_KEY ALGORITHM
             \<lparr>claim_sub = Some ''bob'', claim_role = Some ''nonadmin'', claim_exp = Some 60,
              claim_other = []\<rparr>\<rparr> \<and>
   (60::int) < 61 \<and>
   decode_token plain_lib (issued_token ''bob'' ''nonadmin'') 61 = None \<and>
   decode_token plain_lib (issued_token ''bob'' ''nonadmin'') 59 \<noteq> None"
proof -
  let ?c = "\<lparr>claim_sub = Some ''bob'', claim_role = Some ''nonadmin'', claim_exp = Some 60,
            claim_other = []\<rparr>"
  let ?j = "\<lparr>jws_alg = ALGORITHM, jws_payload = ?c,
             jws_signature = plain_hmac SECRET_KEY ALGORITHM ?c\<rparr>"
  have tok: "issued_token ''bob'' ''nonadmin'' = plain_serialize ?j"
    by (simp add: issued_token_def jwt_encode_def plain_lib_def)
  have p: "parse plain_lib (issued_token ''bob'' ''nonadmin'') = Some ?j"
    by (simp add: tok plain_parse_serialize) (simp add: plain_lib_def plain_parse_serialize)
  have e: "claim_exp (jws_payload ?j) = Some 60" by simp
  have a: "jws_alg ?j = ALGORITHM" by simp
  have s: "jws_signature ?j = hmac plain_lib SECRET_KEY (jws_alg ?j) (jws_payload ?j)"
    by (simp add: plain_lib_def)
  from p e a s
    decode_token_fails_exactly [of plain_lib "issued_token ''bob'' ''nonadmin''" 61]
    decode_token_fails_exactly [of plain_lib "issued_token ''bob'' ''nonadmin''" 59]
  show ?thesis by simp
qed

section \<open>Token issuance: the time to live\<close>

text \<open>
  C6, as the spec states it, fails: a negative \<open>expires_minutes\<close> is truthy, so the
  \<open>or\<close> does not fall back to the default. The admin asking at time 1000 for a token for
  bob with \<open>expires_minutes = -5\<close> gets \<open>expires_at = 700\<close>, five minutes before the
  issuance, and a token that is expired when it is issued.
\<close>

theorem create_token_negative_ttl_counterexample:
  "py_or (Some (- 5)) ACCESS_TOKEN_EXPIRE_MINUTES = - 5 \<and>
   map_sum id expires_at
     (create_token plain_lib seed_db 1000 1000
        \<lparr>request_username = ''bob'', expires_minutes = Some (- 5)\<rparr>
        (seed_user 1 ''admin'' ''admin'')) = Inr 700 \<and>
   map_sum id access_token
     (create_token plain_lib seed_db 1000 1000
        \<lparr>request_username = ''bob'', expires_minutes = Some (- 5)\<rparr>
        (seed_user 1 ''admin'' ''admin''))
     = Inr (jwt_encode plain_lib
         \<lparr>claim_sub = Some ''bob'', claim_role = Some ''nonadmin'', claim_exp = Some 700,
          claim_other = []\<rparr>
         SECRET_KEY ALGORITHM) \<and>
   decode_token plain_lib
     (jwt_encode plain_lib
        \<lparr>claim_sub = Some ''bob'', claim_role = Some ''nonadmin'', claim_exp = Some 700,
         claim_other = []\<rparr>
        SECRET_KEY ALGORITHM) 1000 = None"
proof -
  have q: "query_user seed_db ''bob'' = Some (seed_user 3 ''bob'' ''nonadmin'')"
    by (simp add: query_user_def seed_db_def seed_user_def)
  have p: "py_or (Some (- 5)) ACCESS_TOKEN_EXPIRE_MINUTES = - 5"
    by (simp add: py_or_def)
  have r: "expiry_in_range 1000 (- 5)"
    by (simp add: expiry_in_range_def timedelta_minutes_def MAX_DELTA_DAYS_def
          DATETIME_MIN_def DATETIME_MAX_def)
  have a: "role (seed_user 1 ''admin'' ''admin'') = ''admin''"
    by (simp add: seed_user_def)
  have c: "create_token plain_lib seed_db 1000 1000
        \<lparr>request_username = ''bob'', expires_minutes = Some (- 5)\<rparr>
        (seed_user 1 ''admin'' ''admin'')
      = Inr \<lparr>access_token = jwt_encode plain_lib
         \<lparr>claim_sub = Some ''bob'', claim_role = Some ''nonadmin'', claim_exp = Some 700,
          claim_other = []\<rparr> SECRET_KEY ALGORITHM,
         token_type = ''bearer'', response_role = ''nonadmin'', expires_at = 700\<rparr>"
    using create_token_found [of "seed_user 1 ''admin'' ''admin''"
        "\<lparr>request_username = ''bob'', expires_minutes = Some (- 5)\<rparr>" seed_db
        "seed_user 3 ''bob'' ''nonadmin''" plain_lib 1000 1000] a q r
    by (simp add: p timedelta_minutes_def) (simp add: seed_user_def)
  show ?thesis
    by (simp add: p c decode_encode [OF lossless_plain_lib])
qed

text \<open>
  C6, amended. When the requested TTL is absent (\<open>null\<close>) or zero, issuance uses the
  default of 15 minutes; when it is positive, it is used as given. In both cases the
  \<open>expires_at\<close> of the response is the time of the response plus that positive duration,
  and the token carries the time of its encoding plus the same duration as its expiry.
\<close>

theorem create_token_expiry:
  "create_token L db now1 now2 request caller = Inr resp \<Longrightarrow>
     (expires_minutes request = None \<or> expires_minutes request = Some 0 \<longrightarrow>
        expires_at resp = now2 + timedelta_minutes ACCESS_TOKEN_EXPIRE_MINUTES \<and>
        now2 < expires_at resp \<and>
        (\<exists>j. access_token resp = serialize L j \<and>
              claim_exp (jws_payload j)
                = Some (now1 + timedelta_minutes ACCESS_TOKEN_EXPIRE_MINUTES))) \<and>
     (\<forall>m. expires_minutes request = Some m \<and> 0 < m \<longrightarrow>
        expires_at resp = now2 + timedelta_minutes m \<and> now2 < expires_at resp \<and>
        (\<exists>j. access_token resp = serialize L j \<and>
              claim_exp (jws_payload j) = Some (now1 + timedelta_minutes m)))"
proof -
  assume r: "create_token L db now1 now2 request caller = Inr resp"
  let ?ttl = "py_or (expires_minutes request) ACCESS_TOKEN_EXPIRE_MINUTES"
  from create_token_Inr [OF r] obtain target :: User where
    e: "expires_at resp = now2 + timedelta_minutes ?ttl"
    and a: "access_token resp = jwt_encode L
         \<lparr>claim_sub = Some (request_username request), claim_role = Some (role target),
          claim_exp = Some (now1 + timedelta_minutes ?ttl), claim_other = []\<rparr>
         SECRET_KEY ALGORITHM"
    by blast
  from a have j: "\<exists>j. access_token resp = serialize L j \<and>
      claim_exp (jws_payload j) = Some (now1 + timedelta_minutes ?ttl)"
    by (auto simp: jwt_encode_def)
  have d: "expires_minutes request = None \<or> expires_minutes request = Some 0 \<Longrightarrow>
      ?ttl = ACCESS_TOKEN_EXPIRE_MINUTES"
    by (auto simp: py_or_def)
  have p: "expires_minutes request = Some m \<and> 0 < m \<Longrightarrow> ?ttl = m" for m
    by (auto simp: py_or_def)
  show ?thesis
  proof (intro conjI impI allI)
    assume h: "expires_minutes request = None \<or> expires_minutes request = Some 0"
    from e d [OF h]
    show "expires_at resp = now2 + timedelta_minutes ACCESS_TOKEN_EXPIRE_MINUTES"
      by simp
    then show "now2 < expires_at resp"
      by (simp add: timedelta_minutes_def ACCESS_TOKEN_EXPIRE_MINUTES_def)
    from j d [OF h]
    show "\<exists>j. access_token resp = serialize L j \<and>
              claim_exp (jws_payload j)
                = Some (now1 + timedelta_minutes ACCESS_TOKEN_EXPIRE_MINUTES)"
      by simp
  next
    fix m
    assume h: "expires_minutes request = Some m \<and> 0 < m"
    from e p [OF h] show "expires_at resp = now2 + timedelta_minutes m"
      by simp
    with h show "now2 < expires_at resp"
      by (simp add: timedelta_minutes_def)
    from j p [OF h]
    show "\<exists>j. access_token resp = serialize L j \<and>
              claim_exp (jws_payload j) = Some (now1 + timedelta_minutes m)"
      by simp
  qed
qed

text \<open>
  The admin asks for a token for bob with a TTL of 0 (expiry after 900 seconds) and with
  a TTL of 1 (expiry after 60 seconds).
\<close>

theorem create_token_expiry_witness:
  "create_token plain_lib seed_db 0 0 \<lparr>request_username = ''bob'', expires_minutes = Some 0\<rparr>
     (seed_user 1 ''admin'' ''admin'')
     = Inr \<lparr>access_token = jwt_encode plain_lib
              \<lparr>claim_sub = Some ''bob'', claim_role = Some ''nonadmin'', claim_exp = Some 900,
               claim_other = []\<rparr> SECRET_KEY ALGORITHM,
            token_type = ''bearer'', response_role = ''nonadmin'', expires_at = 900\<rparr> \<and>
   expires_at \<lparr>access_token = jwt_encode plain_lib
              \<lparr>claim_sub = Some ''bob'', claim_role = Some ''nonadmin'', claim_exp = Some 900,
               claim_other = []\<rparr> SECRET_KEY ALGORITHM,
            token_type = ''bearer'', response_role = ''nonadmin'', expires_at = 900\<rparr>
     = 0 + timedelta_minutes ACCESS_TOKEN_EXPIRE_MINUTES \<and>
   create_token plain_lib seed_db 0 0 \<lparr>request_username = ''bob'', expires_minutes = Some 1\<rparr>
     (seed_user 1 ''admin'' ''admin'')
     = Inr \<lparr>access_token = issued_token ''bob'' ''nonadmin'',
            token_type = ''bearer'', response_role = ''nonadmin'', expires_at = 60\<rparr> \<and>
   (0::int) < 1 \<and>
   (0::int) < expires_at \<lparr>access_token = issued_token ''bob'' ''nonadmin'',
            token_type = ''bearer'', response_role = ''nonadmin'', expires_at = 60\<rparr>"
proof -
  let ?admin = "seed_user 1 ''admin'' ''admin''"
  let ?R0 = "\<lparr>access_token = jwt_encode plain_lib
              \<lparr>claim_sub = Some ''bob'', claim_role = Some ''nonadmin'', claim_exp = Some 900,
               claim_other = []\<rparr> SECRET_KEY ALGORITHM,
            token_type = ''bearer'', response_role = ''nonadmin'', expires_at = 900\<rparr>"
  let ?R1 = "\<lparr>access_token = issued_token ''bob'' ''nonadmin'',
            token_type = ''bearer'', response_role = ''nonadmin'', expires_at = 60\<rparr>"
  have q: "query_user seed_db ''bob'' = Some (seed_user 3 ''bob'' ''nonadmin'')"
    by (simp add: query_user_def seed_db_def seed_user_def)
  have a: "role ?admin = ''admin''"
    by (simp add: seed_user_def)
  have r: "expiry_in_range 0 15" "expiry_in_range 0 1"
    by (simp_all add: expiry_in_range_def timedelta_minutes_def MAX_DELTA_DAYS_def
          DATETIME_MIN_def DATETIME_MAX_def)
  have c0: "create_token plain_lib seed_db 0 0
      \<lparr>request_username = ''bob'', expires_minutes = Some 0\<rparr> ?admin = Inr ?R0"
    using create_token_found [of ?admin
        "\<lparr>request_username = ''bob'', expires_minutes = Some 0\<rparr>" seed_db
        "seed_user 3 ''bob'' ''nonadmin''" plain_lib 0 0] a q r
    by (simp add: py_or_def ACCESS_TOKEN_EXPIRE_MINUTES_def timedelta_minutes_def)
       (simp add: seed_user_def)
  have c1: "create_token plain_lib seed_db 0 0
      \<lparr>request_username = ''bob'', expires_minutes = Some 1\<rparr> ?admin = Inr ?R1"
    using create_token_found [of ?admin
        "\<lparr>request_username = ''bob'', expires_minutes = Some 1\<rparr>" seed_db
        "seed_user 3 ''bob'' ''nonadmin''" plain_lib 0 0] a q r
    by (simp add: py_or_def timedelta_minutes_def issued_token_def)
       (simp add: seed_user_def)
  from create_token_expiry [OF c0]
  have e0: "expires_at ?R0 = 0 + timedelta_minutes ACCESS_TOKEN_EXPIRE_MINUTES"
    by (simp add: timedelta_minutes_def ACCESS_TOKEN_EXPIRE_MINUTES_def)
  from create_token_expiry [OF c1]
  have e1: "(0::int) < expires_at ?R1"
    by simp
  from c0 c1 e0 e1 show ?thesis by simp
qed

section \<open>Authentication\<close>

lemma query_user_member:
  "s \<in> username ` set (users db) \<Longrightarrow>
     \<exists>u \<in> set (users db). username u = s \<and> query_user db s = Some u"
  using query_user_None [of db s] query_user_Some [of db s]
  by (cases "query_user db s") auto

text \<open>
  C2. \<open>get_current_user\<close> answers 401 \<open>Missing Authorization header\<close> exactly when the
  header is absent or empty. For a header that is present and not empty, it answers 401
  \<open>Invalid Authorization header format\<close> exactly when the scheme before the first space
  is not \<open>bearer\<close> in any letter case or nothing follows the space. For a well-formed
  header it answers 401 (invalid credentials) when the token does not decode, when the
  claim set has no subject (or an empty one), and when no user record has the subject as
  its username; otherwise it returns the directory's record for the subject. The checks
  are made in this order.
\<close>

theorem get_current_user_outcomes:
  "(get_current_user L db now authorization =
      Inl (HTTPException 401 ''Missing Authorization header'')
      \<longleftrightarrow> authorization = None \<or> authorization = Some []) \<and>
   (\<forall>auth. authorization = Some auth \<and> auth \<noteq> [] \<longrightarrow>
      (get_current_user L db now authorization =
         Inl (HTTPException 401 ''Invalid Authorization header format'')
         \<longleftrightarrow> lower (scheme_of auth) \<noteq> ''bearer'' \<or> token_of auth = []) \<and>
      (lower (scheme_of auth) = ''bearer'' \<and> token_of auth \<noteq> [] \<longrightarrow>
         (decode_token L (token_of auth) now = None \<longrightarrow>
            get_current_user L db now authorization =
              Inl (HTTPException 401 ''Invalid or expired token'')) \<and>
         (\<forall>c. decode_token L (token_of auth) now = Some c \<longrightarrow>
            (claim_sub c = None \<or> claim_sub c = Some [] \<longrightarrow>
               get_current_user L db now authorization
                 \<in> {Inl (HTTPException 401 ''Invalid or expired token''),
                    Inl (HTTPException 401 ''Invalid token payload'')}) \<and>
            (\<forall>s. claim_sub c = Some s \<and> s \<noteq> [] \<longrightarrow>
               (s \<notin> username ` set (users db) \<longrightarrow>
                  get_current_user L db now authorization =
                    Inl (HTTPException 401 ''User not found'')) \<and>
               (s \<in> username ` set (users db) \<longrightarrow>
                  (\<exists>u \<in> set (users db). username u = s \<and> query_user db s = Some u \<and>
                     get_current_user L db now authorization = Inr u))))))"
proof (intro conjI allI impI)
  show "get_current_user L db now authorization =
      Inl (HTTPException 401 ''Missing Authorization header'')
      \<longleftrightarrow> authorization = None \<or> authorization = Some []"
    by (auto simp: get_current_user_subject subject_of_def split: option.splits if_splits)
next
  fix auth
  assume a: "authorization = Some auth \<and> auth \<noteq> []"
  show "get_current_user L db now authorization =
         Inl (HTTPException 401 ''Invalid Authorization header format'')
         \<longleftrightarrow> lower (scheme_of auth) \<noteq> ''bearer'' \<or> token_of auth = []"
    using a
    by (auto simp: get_current_user_subject subject_of_def split: option.splits if_splits)
next
  fix auth
  assume a: "authorization = Some auth \<and> auth \<noteq> []"
     and b: "lower (scheme_of auth) = ''bearer'' \<and> token_of auth \<noteq> []"
     and d: "decode_token L (token_of auth) now = None"
  from a b d show "get_current_user L db now authorization =
              Inl (HTTPException 401 ''Invalid or expired token'')"
    by (simp add: get_current_user_subject subject_of_def)
next
  fix auth c
  assume a: "authorization = Some auth \<and> auth \<noteq> []"
     and b: "lower (scheme_of auth) = ''bearer'' \<and> token_of auth \<noteq> []"
     and d: "decode_token L (token_of auth) now = Some c"
     and s: "claim_sub c = None \<or> claim_sub c = Some []"
  from a b d s show "get_current_user L db now authorization
                 \<in> {Inl (HTTPException 401 ''Invalid or expired token''),
                    Inl (HTTPException 401 ''Invalid token payload'')}"
    by (auto simp: get_current_user_subject subject_of_def)
next
  fix auth c s
  assume a: "authorization = Some auth \<and> auth \<noteq> []"
     and b: "lower (scheme_of auth) = ''bearer'' \<and> token_of auth \<noteq> []"
     and d: "decode_token L (token_of auth) now = Some c"
     and s: "claim_sub c = Some s \<and> s \<noteq> []"
  from a b d s have sub: "subject_of L now authorization = Inr s"
    by (simp add: subject_of_def empty_payload_def)
  show "get_current_user L db now authorization = Inl (HTTPException 401 ''User not found'')"
    if "s \<notin> username ` set (users db)"
    using that sub query_user_None [of db s] by (simp add: get_current_user_subject)
  show "\<exists>u \<in> set (users db). username u = s \<and> query_user db s = Some u \<and>
          get_current_user L db now authorization = Inr u"
    if "s \<in> username ` set (users db)"
    using query_user_member [OF that] sub by (auto simp: get_current_user_subject)
qed

text \<open>
  bob's token, presented at time 10 to the seeded directory, gives bob's record; a
  request without the header is refused as missing credentials.
\<close>

theorem get_current_user_outcomes_witness:
  "bearer (issued_token ''bob'' ''nonadmin'') = Some (''Bearer '' @ issued_token ''bob'' ''nonadmin'') \<and>
   ''Bearer '' @ issued_token ''bob'' ''nonadmin'' \<noteq> [] \<and>
   lower (scheme_of (''Bearer '' @ issued_token ''bob'' ''nonadmin'')) = ''bearer'' \<and>
   token_of (''Bearer '' @ issued_token ''bob'' ''nonadmin'') = issued_token ''bob'' ''nonadmin'' \<and>
   issued_token ''bob'' ''nonadmin'' \<noteq> [] \<and>
   decode_token plain_lib (issued_token ''bob'' ''nonadmin'') 10
     = Some \<lparr>claim_sub = Some ''bob'', claim_role = Some ''nonadmin'', claim_exp = Some 60,
       claim_other = []\<rparr> \<and>
   ''bob'' \<in> username ` set (users seed_db) \<and>
   get_current_user plain_lib seed_db 10 (bearer (issued_token ''bob'' ''nonadmin''))
     = Inr (seed_user 3 ''bob'' ''nonadmin'') \<and>
   get_current_user plain_lib seed_db 10 None
     = Inl (HTTPException 401 ''Missing Authorization header'')"
proof -
  let ?t = "issued_token ''bob'' ''nonadmin''"
  let ?a = "''Bearer '' @ ?t"
  have h0: "bearer ?t = Some ?a"
    by (simp add: bearer_def)
  have h1: "?a \<noteq> []" by simp
  have h2: "lower (scheme_of ?a) = ''bearer''"
    by (simp add: scheme_of_def partition_space_def lower_Bearer)
  have h3: "token_of ?a = ?t"
    by (simp add: token_of_def partition_space_def)
  have h4: "?t \<noteq> []"
    using lossless_plain_lib
    by (simp add: lossless_def issued_token_def jwt_encode_def)
  have h5: "decode_token plain_lib ?t 10
     = Some \<lparr>claim_sub = Some ''bob'', claim_role = Some ''nonadmin'', claim_exp = Some 60,
       claim_other = []\<rparr>"
    by (simp add: issued_token_def decode_encode [OF lossless_plain_lib])
  have h6: "''bob'' \<in> username ` set (users seed_db)"
    by (simp add: seed_db_def seed_user_def)
  have q: "query_user seed_db ''bob'' = Some (seed_user 3 ''bob'' ''nonadmin'')"
    by (simp add: query_user_def seed_db_def seed_user_def)
  from h0 h1 h2 h3 h4 h5 h6
    get_current_user_outcomes [of plain_lib seed_db 10 "bearer ?t"]
  have "\<exists>u \<in> set (users seed_db). username u = ''bob'' \<and> query_user seed_db ''bob'' = Some u \<and>
          get_current_user plain_lib seed_db 10 (bearer ?t) = Inr u"
    by simp
  with q have r: "get_current_user plain_lib seed_db 10 (bearer ?t)
      = Inr (seed_user 3 ''bob'' ''nonadmin'')"
    by auto
  from get_current_user_outcomes [of plain_lib seed_db 10 None]
  have m: "get_current_user plain_lib seed_db 10 None
     = Inl (HTTPException 401 ''Missing Authorization header'')"
    by simp
  from h0 h1 h2 h3 h4 h5 h6 r m show ?thesis by blast
qed

lemma find_map_commute: "find P (map f xs) = map_option f (find (\<lambda>x. P (f x)) xs)"
  by (induction xs) simp_all

lemma query_user_erase:
  "map erase_active (users db) = map erase_active (users db') \<Longrightarrow>
     map_option erase_active (query_user db s) = map_option erase_active (query_user db' s)"
proof -
  assume e: "map erase_active (users db) = map erase_active (users db')"
  have "map_option erase_active (query_user d s)
      = find (\<lambda>u. username u = s) (map erase_active (users d))" for d
    by (simp add: query_user_def find_map_commute erase_active_def)
  with e show ?thesis by simp
qed

lemma get_current_user_bearer:
  "token \<noteq> [] \<Longrightarrow> decode_token L token now = Some c \<Longrightarrow> claim_sub c = Some s \<Longrightarrow> s \<noteq> [] \<Longrightarrow>
     query_user db s = Some u \<Longrightarrow> get_current_user L db now (bearer token) = Inr u"
  by (simp add: get_current_user_subject subject_of_bearer)

text \<open>
  C8. Authentication does not read \<open>is_active\<close>: on two directories that are equal up
  to the \<open>is_active\<close> column, the same request at the same time gives the same error or
  the same user record up to \<open>is_active\<close>. In particular a valid token whose subject is a
  deactivated user (\<open>is_active = False\<close>) is accepted, and the deactivated record returned.
\<close>

theorem authenticate_ignores_is_active:
  "(map erase_active (users db) = map erase_active (users db') \<longrightarrow>
      map_sum id erase_active (get_current_user L db now authorization) =
      map_sum id erase_active (get_current_user L db' now authorization)) \<and>
   (token \<noteq> [] \<and> decode_token L token now = Some c \<and> claim_sub c = Some s \<and> s \<noteq> [] \<and>
    query_user db s = Some u \<and> is_active u = Some False \<longrightarrow>
      get_current_user L db now (bearer token) = Inr u)"
proof (intro conjI impI)
  assume e: "map erase_active (users db) = map erase_active (users db')"
  show "map_sum id erase_active (get_current_user L db now authorization) =
      map_sum id erase_active (get_current_user L db' now authorization)"
  proof (cases "subject_of L now authorization")
    case (Inl x)
    then show ?thesis by (simp add: get_current_user_subject)
  next
    case (Inr s)
    from query_user_erase [OF e, of s] Inr show ?thesis
      by (cases "query_user db s"; cases "query_user db' s")
         (simp_all add: get_current_user_subject)
  qed
next
  assume "token \<noteq> [] \<and> decode_token L token now = Some c \<and> claim_sub c = Some s \<and> s \<noteq> [] \<and>
    query_user db s = Some u \<and> is_active u = Some False"
  then show "get_current_user L db now (bearer token) = Inr u"
    by (simp add: get_current_user_bearer)
qed

text \<open>
  bob's token is accepted by the seeded directory and by the one where bob is
  deactivated.
\<close>

theorem authenticate_ignores_is_active_witness:
  "map erase_active (users seed_db) = map erase_active (users deactivated_db) \<and>
   issued_token ''bob'' ''nonadmin'' \<noteq> [] \<and>
   decode_token plain_lib (issued_token ''bob'' ''nonadmin'') 10
     = Some \<lparr>claim_sub = Some ''bob'', claim_role = Some ''nonadmin'', claim_exp = Some 60,
       claim_other = []\<rparr> \<and>
   query_user deactivated_db ''bob''
     = Some ((seed_user 3 ''bob'' ''nonadmin'')\<lparr>is_active := Some False\<rparr>) \<and>
   get_current_user plain_lib deactivated_db 10 (bearer (issued_token ''bob'' ''nonadmin''))
     = Inr ((seed_user 3 ''bob'' ''nonadmin'')\<lparr>is_active := Some False\<rparr>) \<and>
   map_sum id erase_active
     (get_current_user plain_lib seed_db 10 (bearer (issued_token ''bob'' ''nonadmin'')))
     = Inr (erase_active (seed_user 3 ''bob'' ''nonadmin''))"
proof -
  let ?t = "issued_token ''bob'' ''nonadmin''"
  let ?b = "(seed_user 3 ''bob'' ''nonadmin'')\<lparr>is_active := Some False\<rparr>"
  have e: "map erase_active (users seed_db) = map erase_active (users deactivated_db)"
    by (simp add: seed_db_def deactivated_db_def erase_active_def seed_user_def)
  have n: "?t \<noteq> []"
    using lossless_plain_lib
    by (simp add: lossless_def issued_token_def jwt_encode_def)
  have d: "decode_token plain_lib ?t 10
     = Some \<lparr>claim_sub = Some ''bob'', claim_role = Some ''nonadmin'', claim_exp = Some 60,
       claim_other = []\<rparr>"
    by (simp add: issued_token_def decode_encode [OF lossless_plain_lib])
  have q: "query_user deactivated_db ''bob'' = Some ?b"
    by (simp add: query_user_def deactivated_db_def seed_db_def seed_user_def)
  have f: "is_active ?b = Some False" by simp
  have eb: "erase_active ?b = erase_active (seed_user 3 ''bob'' ''nonadmin'')"
    by (simp add: erase_active_def seed_user_def)
  note T = authenticate_ignores_is_active [of deactivated_db seed_db plain_lib 10 "bearer ?t" ?t
      "\<lparr>claim_sub = Some ''bob'', claim_role = Some ''nonadmin'', claim_exp = Some 60,
       claim_other = []\<rparr>"
      "''bob''" ?b]
  from T n d q f have r: "get_current_user plain_lib deactivated_db 10 (bearer ?t) = Inr ?b"
    by simp
  from T e [symmetric]
  have "map_sum id erase_active (get_current_user plain_lib deactivated_db 10 (bearer ?t)) =
      map_sum id erase_active (get_current_user plain_lib seed_db 10 (bearer ?t))"
    by blast
  with r eb have s: "map_sum id erase_active (get_current_user plain_lib seed_db 10 (bearer ?t))
     = Inr (erase_active (seed_user 3 ''bob'' ''nonadmin''))"
    by simp
  from e n d q r s show ?thesis by blast
qed

section \<open>Authorization follows the directory\<close>

lemma depends_require_roles_bearer:
  "token \<noteq> [] \<Longrightarrow> decode_token L token now = Some c \<Longrightarrow> claim_sub c = Some s \<Longrightarrow> s \<noteq> [] \<Longrightarrow>
     query_user db s = Some u \<Longrightarrow>
     depends_require_roles allowed L db now (bearer token) = require_roles allowed u"
  by (simp add: depends_require_roles_def get_current_user_bearer)

theorem authorization_follows_directory_role:
  "(token \<noteq> [] \<and> decode_token L token now = Some c \<and> claim_sub c = Some s \<and> s \<noteq> [] \<and>
    query_user db s = Some u \<longrightarrow>
      get_current_user L db now (bearer token) = Inr u \<and>
      (depends_require_roles allowed L db now (bearer token) = Inr u
         \<longleftrightarrow> role u \<in> set allowed) \<and>
      (role u \<notin> set allowed \<longrightarrow>
         depends_require_roles allowed L db now (bearer token)
           = Inl (HTTPException 403 ''403 Forbidden''))) \<and>
   (lossless L \<and> create_token L db_old issued1 issued2 request caller = Inr resp \<and>
    request_username request \<noteq> [] \<and>
    query_user db_old (request_username request) = Some u_old \<and>
    query_user db_new (request_username request) = Some u_new \<and>
    now < issued1 + timedelta_minutes
            (py_or (expires_minutes request) ACCESS_TOKEN_EXPIRE_MINUTES) \<longrightarrow>
      map_option claim_role (decode_token L (access_token resp) now) = Some (Some (role u_old)) \<and>
      get_current_user L db_new now (bearer (access_token resp)) = Inr u_new \<and>
      (depends_require_roles allowed L db_new now (bearer (access_token resp)) = Inr u_new
         \<longleftrightarrow> role u_new \<in> set allowed))"
proof (intro conjI impI)
  assume a: "token \<noteq> [] \<and> decode_token L token now = Some c \<and> claim_sub c = Some s \<and> s \<noteq> [] \<and>
    query_user db s = Some u"
  then show "get_current_user L db now (bearer token) = Inr u"
    by (simp add: get_current_user_bearer)
  from a have g: "depends_require_roles allowed L db now (bearer token) = require_roles allowed u"
    by (simp add: depends_require_roles_bearer)
  show "depends_require_roles allowed L db now (bearer token) = Inr u \<longleftrightarrow> role u \<in> set allowed"
    by (simp add: g require_roles_def)
  show "depends_require_roles allowed L db now (bearer token)
           = Inl (HTTPException 403 ''403 Forbidden'')" if "role u \<notin> set allowed"
    using that by (simp add: g require_roles_def)
next
  assume b: "lossless L \<and> create_token L db_old issued1 issued2 request caller = Inr resp \<and>
    request_username request \<noteq> [] \<and>
    query_user db_old (request_username request) = Some u_old \<and>
    query_user db_new (request_username request) = Some u_new \<and>
    now < issued1 + timedelta_minutes
            (py_or (expires_minutes request) ACCESS_TOKEN_EXPIRE_MINUTES)"
  let ?c = "\<lparr>claim_sub = Some (request_username request), claim_role = Some (role u_old),
          claim_exp = Some (issued1 + timedelta_minutes
            (py_or (expires_minutes request) ACCESS_TOKEN_EXPIRE_MINUTES)),
          claim_other = []\<rparr>"
  from b create_token_Inr [of L db_old issued1 issued2 request caller resp]
  have tok: "access_token resp = jwt_encode L ?c SECRET_KEY ALGORITHM"
    by auto
  from b have ne: "access_token resp \<noteq> []"
    by (simp add: tok jwt_encode_def lossless_def)
  from b have dec: "decode_token L (access_token resp) now = Some ?c"
    by (simp add: tok decode_encode)
  then show "map_option claim_role (decode_token L (access_token resp) now)
      = Some (Some (role u_old))"
    by simp
  from b ne dec show g: "get_current_user L db_new now (bearer (access_token resp)) = Inr u_new"
    by (simp add: get_current_user_bearer [where c = ?c])
  show "depends_require_roles allowed L db_new now (bearer (access_token resp)) = Inr u_new
         \<longleftrightarrow> role u_new \<in> set allowed"
    by (simp add: depends_require_roles_def g require_roles_def)
qed

text \<open>
  bob's token was issued while bob was nonadmin. After bob's promotion to privileged it
  opens a gate for admin and privileged, although it still carries the role nonadmin;
  before the promotion the same gate answers 403.
\<close>

theorem authorization_follows_directory_role_witness:
  "lossless plain_lib \<and>
   create_token plain_lib seed_db 0 0 \<lparr>request_username = ''bob'', expires_minutes = Some 1\<rparr>
     (seed_user 1 ''admin'' ''admin'')
     = Inr \<lparr>access_token = issued_token ''bob'' ''nonadmin'',
            token_type = ''bearer'', response_role = ''nonadmin'', expires_at = 60\<rparr> \<and>
   query_user seed_db ''bob'' = Some (seed_user 3 ''bob'' ''nonadmin'') \<and>
   query_user promoted_db ''bob'' = Some (seed_user 3 ''bob'' ''privileged'') \<and>
   (10::int) < 0 + timedelta_minutes (py_or (Some 1) ACCESS_TOKEN_EXPIRE_MINUTES) \<and>
   map_option claim_role (decode_token plain_lib (issued_token ''bob'' ''nonadmin'') 10)
     = Some (Some ''nonadmin'') \<and>
   get_current_user plain_lib promoted_db 10 (bearer (issued_token ''bob'' ''nonadmin''))
     = Inr (seed_user 3 ''bob'' ''privileged'') \<and>
   depends_require_roles [''admin'', ''privileged''] plain_lib promoted_db 10
     (bearer (issued_token ''bob'' ''nonadmin'')) = Inr (seed_user 3 ''bob'' ''privileged'') \<and>
   depends_require_roles [''admin'', ''privileged''] plain_lib seed_db 10
     (bearer (issued_token ''bob'' ''nonadmin'')) = Inl (HTTPException 403 ''403 Forbidden'')"
proof -
  let ?admin = "seed_user 1 ''admin'' ''admin''"
  let ?t = "issued_token ''bob'' ''nonadmin''"
  let ?req = "\<lparr>request_username = ''bob'', expires_minutes = Some 1\<rparr>"
  let ?R = "\<lparr>access_token = ?t, token_type = ''bearer'', response_role = ''nonadmin'',
            expires_at = 60\<rparr>"
  let ?c = "\<lparr>claim_sub = Some ''bob'', claim_role = Some ''nonadmin'', claim_exp = Some 60,
       claim_other = []\<rparr>"
  let ?allowed = "[''admin'', ''privileged'']"
  have q: "query_user seed_db ''bob'' = Some (seed_user 3 ''bob'' ''nonadmin'')"
    by (simp add: query_user_def seed_db_def seed_user_def)
  have q': "query_user promoted_db ''bob'' = Some (seed_user 3 ''bob'' ''privileged'')"
    by (simp add: query_user_def promoted_db_def seed_db_def seed_user_def)
  have ad: "role ?admin = ''admin''"
    by (simp add: seed_user_def)
  have rg: "expiry_in_range 0 1"
    by (simp add: expiry_in_range_def timedelta_minutes_def MAX_DELTA_DAYS_def
          DATETIME_MIN_def DATETIME_MAX_def)
  have c: "create_token plain_lib seed_db 0 0 ?req ?admin = Inr ?R"
    using create_token_found [of ?admin ?req seed_db "seed_user 3 ''bob'' ''nonadmin''"
        plain_lib 0 0] ad q rg
    by (simp add: py_or_def timedelta_minutes_def issued_token_def)
       (simp add: seed_user_def)
  have t: "(10::int) < 0 + timedelta_minutes (py_or (Some 1) ACCESS_TOKEN_EXPIRE_MINUTES)"
    by (simp add: py_or_def timedelta_minutes_def)
  have n: "?t \<noteq> []"
    using lossless_plain_lib
    by (simp add: lossless_def issued_token_def jwt_encode_def)
  have d: "decode_token plain_lib ?t 10 = Some ?c"
    by (simp add: issued_token_def decode_encode [OF lossless_plain_lib])
  have r: "role (seed_user 3 ''bob'' ''nonadmin'') \<notin> set ?allowed"
          "role (seed_user 3 ''bob'' ''privileged'') \<in> set ?allowed"
          "role (seed_user 3 ''bob'' ''nonadmin'') = ''nonadmin''"
    by (simp_all add: seed_user_def)
  note T = authorization_follows_directory_role [of ?t plain_lib 10 ?c "''bob''" seed_db
      "seed_user 3 ''bob'' ''nonadmin''" ?allowed seed_db 0 0 ?req ?admin ?R
      "seed_user 3 ''bob'' ''nonadmin''" promoted_db "seed_user 3 ''bob'' ''privileged''"]
  from T n d q r have old: "depends_require_roles ?allowed plain_lib seed_db 10 (bearer ?t)
      = Inl (HTTPException 403 ''403 Forbidden'')"
    by simp
  from T lossless_plain_lib c q q' t r
  have new: "map_option claim_role (decode_token plain_lib ?t 10) = Some (Some ''nonadmin'')"
     "get_current_user plain_lib promoted_db 10 (bearer ?t) = Inr (seed_user 3 ''bob'' ''privileged'')"
     "depends_require_roles ?allowed plain_lib promoted_db 10 (bearer ?t)
        = Inr (seed_user 3 ''bob'' ''privileged'')"
    by simp_all
  from lossless_plain_lib c q q' t new old show ?thesis by blast
qed

end
